theory Spec2Isabelle
  imports Complex_Main
begin

section \<open>Values, dictionaries and errors\<close>

text \<open>
  Python floats are modelled by the real numbers: rounding, overflow, infinities and
  NaN are outside the model.  A dictionary with string keys and numeric values is a map
  from strings to reals; only the numeric keys of the material and geometry
  dictionaries are ever read by the evaluators.  The two exceptions the evaluators can
  raise are values of \<open>py_error\<close>: a missing key read with \<open>d[k]\<close>, and a division
  whose divisor is zero.
\<close>

datatype py_error = KeyError | ZeroDivisionError

datatype region = Cut_off | Linear | Saturation

type_synonym pydict = "string \<rightharpoonup> real"

definition dict_get :: "pydict \<Rightarrow> string \<Rightarrow> real \<Rightarrow> real" where
  \<comment> \<open>\<open>d.get(k, dflt)\<close>\<close>
  "dict_get d k dflt = (case d k of None \<Rightarrow> dflt | Some v \<Rightarrow> v)"

definition dict_item :: "pydict \<Rightarrow> string \<Rightarrow> py_error + real" where
  \<comment> \<open>\<open>d[k]\<close>\<close>
  "dict_item d k = (case d k of None \<Rightarrow> Inl KeyError | Some v \<Rightarrow> Inr v)"

definition py_truediv :: "real \<Rightarrow> real \<Rightarrow> py_error + real" where
  \<comment> \<open>\<open>a / b\<close> on Python floats\<close>
  "py_truediv a b = (if b = 0 then Inl ZeroDivisionError else Inr (a / b))"

definition bind_result :: "py_error + 'a \<Rightarrow> ('a \<Rightarrow> py_error + 'b) \<Rightarrow> py_error + 'b" where
  \<comment> \<open>sequencing: an exception raised by the first computation skips the rest\<close>
  "bind_result r f = (case r of Inl e \<Rightarrow> Inl e | Inr v \<Rightarrow> f v)"

section \<open>The basic evaluator\<close>

text \<open>
  \<open>MOSFETPhysics.calculate_drain_current\<close> (modules/physics_engine.py, repeated
  verbatim in app\_enhanced.py).  The two current expressions of the source are named
  here so that they can be evaluated on their own; the evaluator calls them with the
  arguments of the source.  The writes to \<open>self.explanations\<close> store display text only
  and do not influence the returned pair; they are left out.
\<close>

definition linear_current :: "real \<Rightarrow> real \<Rightarrow> real \<Rightarrow> real \<Rightarrow> real \<Rightarrow> real \<Rightarrow> py_error + real" where
  \<comment> \<open>\<open>mu * C_ox * (W/L) * (V_ov * V_ds - 0.5 * V_ds**2)\<close>\<close>
  "linear_current mu C_ox W L V_ov V_ds =
     bind_result (py_truediv W L) (\<lambda>r. Inr (mu * C_ox * r * (V_ov * V_ds - 0.5 * V_ds ^ 2)))"

definition saturation_current :: "real \<Rightarrow> real \<Rightarrow> real \<Rightarrow> real \<Rightarrow> real \<Rightarrow> py_error + real" where
  \<comment> \<open>\<open>0.5 * mu * C_ox * (W/L) * V_ov**2\<close>\<close>
  "saturation_current mu C_ox W L V_ov =
     bind_result (py_truediv W L) (\<lambda>r. Inr (0.5 * mu * C_ox * r * V_ov ^ 2))"

definition calculate_drain_current ::
  "real \<Rightarrow> real \<Rightarrow> pydict \<Rightarrow> pydict \<Rightarrow> py_error + (real \<times> region)" where
  "calculate_drain_current V_gs V_ds material geometry =
     (let mu_n = dict_get material ''electron_mobility_value'' 1400;
          C_ox = dict_get geometry ''C_ox'' (345 / 100000);
          W = dict_get geometry ''width'' (10 / 1000000);
          L = dict_get geometry ''length'' (1 / 1000000);
          V_th = dict_get geometry ''V_th'' 0.7;
          mu_n_si = mu_n * (1 / 10000);
          V_ds_sat = max (V_gs - V_th) 0
      in if V_gs \<le> V_th then Inr (0, Cut_off)
         else if V_ds < V_ds_sat then
           bind_result (linear_current mu_n_si C_ox W L (V_gs - V_th) V_ds)
             (\<lambda>I_d. Inr (I_d, Linear))
         else
           bind_result (saturation_current mu_n_si C_ox W L (V_gs - V_th))
             (\<lambda>I_d. Inr (I_d, Saturation)))"

definition calculate_breakdown_voltage :: "pydict \<Rightarrow> real \<Rightarrow> real" where
  "calculate_breakdown_voltage material thickness =
     (let E_br = dict_get material ''breakdown_field_value'' 0.3 * 1000000;
          V_br = E_br * thickness * (1 / 10000)
      in V_br)"

section \<open>The extended evaluator\<close>

text \<open>
  The helper methods of \<open>AdvancedMOSFETPhysics\<close>; they are the same in
  modules/advanced\_physics.py and in app\_enhanced.py.  The exponent \<open>2.0\<close> of the
  mobility law is an integral float, so the power is the square also for a negative
  base.
\<close>

definition epsilon_0 :: real where
  "epsilon_0 = 8854 / 10 ^ 15"

definition temperature_dependent_mobility :: "pydict \<Rightarrow> real \<Rightarrow> py_error + real" where
  "temperature_dependent_mobility material T =
     bind_result (dict_item material ''electron_mobility_value'') (\<lambda>mu_300.
     bind_result (py_truediv 300 T) (\<lambda>q. Inr (mu_300 * q ^ 2)))"

definition temperature_dependent_vth :: "real \<Rightarrow> real \<Rightarrow> real" where
  "temperature_dependent_vth V_th0 T = V_th0 - 0.002 * (T - 300)"

definition dibl_effect :: "real \<Rightarrow> real \<Rightarrow> real \<Rightarrow> py_error + real" where
  "dibl_effect V_th V_ds L =
     bind_result (py_truediv 0.1 (L * 1000000)) (\<lambda>eta. Inr (V_th - eta * V_ds))"

definition channel_length_modulation :: "real \<Rightarrow> real \<Rightarrow> py_error + real" where
  "channel_length_modulation L V_ds = py_truediv 0.1 (L * 1000000)"

definition default_temperature :: real where
  \<comment> \<open>the default of the parameter \<open>temperature\<close> in both source files\<close>
  "default_temperature = 300"

definition kelvin :: "real option \<Rightarrow> real" where
  \<comment> \<open>\<open>T = temperature + 273.15\<close>, the argument being optional\<close>
  "kelvin temperature =
     (case temperature of None \<Rightarrow> default_temperature | Some t \<Rightarrow> t) + 273.15"

definition diagnostics :: "real \<Rightarrow> real \<Rightarrow> real \<Rightarrow> pydict" where
  \<comment> \<open>the dictionary literal of the \<open>return\<close> statement\<close>
  "diagnostics V_th_sc V_th0 factor =
     [''effective_vth'' \<mapsto> V_th_sc,
      ''dibl_effect'' \<mapsto> V_th_sc - V_th0,
      ''velocity_saturation_factor'' \<mapsto> factor]"

text \<open>
  \<open>AdvancedMOSFETPhysics.calculate_with_short_channel_effects\<close> as written in
  app\_enhanced.py: the variant without velocity saturation.
\<close>

definition calculate_with_short_channel_effects_simple ::
  "real \<Rightarrow> real \<Rightarrow> pydict \<Rightarrow> pydict \<Rightarrow> real option \<Rightarrow> py_error + (real \<times> region \<times> pydict)" where
  "calculate_with_short_channel_effects_simple V_gs V_ds material geometry temperature =
     bind_result (dict_item geometry ''length'') (\<lambda>L.
     bind_result (dict_item geometry ''width'') (\<lambda>W.
     let t_ox = dict_get geometry ''oxide_thickness'' (2 / 10 ^ 9);
         V_th0 = dict_get geometry ''V_th'' 0.7;
         T = kelvin temperature
     in
     bind_result (temperature_dependent_mobility material T) (\<lambda>mu_n.
     let V_th = temperature_dependent_vth V_th0 T in
     bind_result (dibl_effect V_th V_ds L) (\<lambda>V_th_sc.
     bind_result (channel_length_modulation L V_ds) (\<lambda>lambda_clm.
     bind_result (py_truediv (dict_get material ''dielectric_constant'' 3.9 * epsilon_0) t_ox) (\<lambda>C_ox.
     bind_result
       (if V_gs \<le> V_th_sc then Inr (0, Cut_off)
        else
          let V_gt = V_gs - V_th_sc;
              V_ds_sat = V_gt
          in if V_ds < V_ds_sat then
               bind_result (linear_current mu_n C_ox W L (V_gs - V_th_sc) V_ds)
                 (\<lambda>I_d. Inr (I_d, Linear))
             else
               bind_result (saturation_current mu_n C_ox W L (V_gs - V_th_sc))
                 (\<lambda>I_d_sat. Inr (I_d_sat * (1 + lambda_clm * (V_ds - V_ds_sat)), Saturation)))
       (\<lambda>(I_d, region). Inr (I_d, region, diagnostics V_th_sc V_th0 0.8))))))))"

text \<open>
  The same method as written in modules/advanced\_physics.py: the variant with
  velocity saturation.  Its three expressions are named as for the basic evaluator.
\<close>

definition velocity_saturation_voltage :: "real \<Rightarrow> real \<Rightarrow> real \<Rightarrow> py_error + real" where
  \<comment> \<open>\<open>V_gt / (1 + (V_gt / (E_c * L)))\<close>\<close>
  "velocity_saturation_voltage E_c L V_gt =
     bind_result (py_truediv V_gt (E_c * L)) (\<lambda>q. py_truediv V_gt (1 + q))"

definition velocity_linear_current ::
  "real \<Rightarrow> real \<Rightarrow> real \<Rightarrow> real \<Rightarrow> real \<Rightarrow> real \<Rightarrow> real \<Rightarrow> py_error + real" where
  \<comment> \<open>\<open>(mu * C_ox * W / L) * (V_gt * V_ds - 0.5 * V_ds**2) / (1 + (V_ds / (E_c * L)))\<close>\<close>
  "velocity_linear_current mu C_ox W L E_c V_gt V_ds =
     bind_result (py_truediv (mu * C_ox * W) L) (\<lambda>k.
     bind_result (py_truediv V_ds (E_c * L)) (\<lambda>q.
     py_truediv (k * (V_gt * V_ds - 0.5 * V_ds ^ 2)) (1 + q)))"

definition velocity_saturation_current ::
  "real \<Rightarrow> real \<Rightarrow> real \<Rightarrow> real \<Rightarrow> real \<Rightarrow> real \<Rightarrow> py_error + real" where
  \<comment> \<open>\<open>0.5 * mu * C_ox * W / L * V_gt**2 / (1 + (V_gt / (E_c * L)))\<close>\<close>
  "velocity_saturation_current mu C_ox W L E_c V_gt =
     bind_result (py_truediv (0.5 * mu * C_ox * W) L) (\<lambda>k.
     bind_result (py_truediv V_gt (E_c * L)) (\<lambda>q.
     py_truediv (k * V_gt ^ 2) (1 + q)))"

definition calculate_with_short_channel_effects_vsat ::
  "real \<Rightarrow> real \<Rightarrow> pydict \<Rightarrow> pydict \<Rightarrow> real option \<Rightarrow> py_error + (real \<times> region \<times> pydict)" where
  "calculate_with_short_channel_effects_vsat V_gs V_ds material geometry temperature =
     bind_result (dict_item geometry ''length'') (\<lambda>L.
     bind_result (dict_item geometry ''width'') (\<lambda>W.
     let t_ox = dict_get geometry ''oxide_thickness'' (2 / 10 ^ 9);
         V_th0 = dict_get geometry ''V_th'' 0.7;
         T = kelvin temperature
     in
     bind_result (temperature_dependent_mobility material T) (\<lambda>mu_n.
     let V_th = temperature_dependent_vth V_th0 T in
     bind_result (dibl_effect V_th V_ds L) (\<lambda>V_th_sc.
     bind_result (channel_length_modulation L V_ds) (\<lambda>lambda_clm.
     bind_result (py_truediv (dict_get material ''dielectric_constant'' 3.9 * epsilon_0) t_ox) (\<lambda>C_ox.
     let v_sat = dict_get material ''saturation_velocity'' 10000000 * (1 / 100) in
     bind_result (py_truediv v_sat mu_n) (\<lambda>E_c.
     if V_gs \<le> V_th_sc then Inr (0, Cut_off, diagnostics V_th_sc V_th0 0)
     else
       let V_gt = V_gs - V_th_sc in
       bind_result (velocity_saturation_voltage E_c L V_gt) (\<lambda>V_ds_sat.
       bind_result
         (if V_ds < V_ds_sat then
            bind_result (velocity_linear_current mu_n C_ox W L E_c V_gt V_ds)
              (\<lambda>I_d. Inr (I_d, Linear))
          else
            bind_result (velocity_saturation_current mu_n C_ox W L E_c V_gt)
              (\<lambda>I_d_sat. Inr (I_d_sat * (1 + lambda_clm * (V_ds - V_ds_sat)), Saturation)))
         (\<lambda>(I_d, region).
            bind_result (py_truediv V_ds_sat (V_gs - V_th_sc)) (\<lambda>factor.
            Inr (I_d, region, diagnostics V_th_sc V_th0 factor)))))))))))"

section \<open>Reference data\<close>

text \<open>The numeric entries of \<open>MATERIAL_PROPERTIES["Silicon (Si)"]\<close>.\<close>

definition silicon :: pydict where
  "silicon =
     [''bandgap_value'' \<mapsto> 1.12,
      ''electron_mobility_value'' \<mapsto> 1400,
      ''thermal_conductivity_value'' \<mapsto> 150,
      ''breakdown_field_value'' \<mapsto> 0.3,
      ''dielectric_constant'' \<mapsto> 11.7,
      ''saturation_velocity'' \<mapsto> 10000000]"

text \<open>
  A material with the mobility of silicon and every other numeric entry replaced by
  that of gallium nitride.
\<close>

definition silicon_variant :: pydict where
  "silicon_variant =
     silicon(''bandgap_value'' \<mapsto> 3.4, ''thermal_conductivity_value'' \<mapsto> 130,
       ''breakdown_field_value'' \<mapsto> 3.3, ''dielectric_constant'' \<mapsto> 9,
       ''saturation_velocity'' \<mapsto> 25000000)"

text \<open>A one micrometre long, ten micrometre wide device; every other key is left to its default.\<close>

definition micron_geometry :: pydict where
  "micron_geometry = [''length'' \<mapsto> 1 / 1000000, ''width'' \<mapsto> 10 / 1000000]"

section \<open>Closed forms and invariants\<close>

text \<open>
  The effective threshold voltage \<open>V_th_sc\<close> of the extended evaluators as one closed
  expression: they compute it in two steps, \<open>temperature_dependent_vth\<close> (a shift of
  \<open>-2 mV/K\<close> around 300 K) and then \<open>dibl_effect\<close> (the shift \<open>0.1 / (L * 1e6) * V_ds\<close>).
\<close>

definition effective_threshold :: "real \<Rightarrow> real \<Rightarrow> real \<Rightarrow> real \<Rightarrow> real" where
  "effective_threshold V_th0 T L V_ds = V_th0 - 0.002 * (T - 300) - 0.1 / (L * 1000000) * V_ds"

text \<open>
  The critical field \<open>E_c\<close> as modules/advanced\_physics.py computes it: the saturation
  velocity converted to m/s, divided by the temperature-corrected mobility.
\<close>

definition critical_field :: "real \<Rightarrow> real \<Rightarrow> real \<Rightarrow> real" where
  "critical_field v_sat_cm mu_300 T = v_sat_cm * (1 / 100) / (mu_300 * (300 / T) ^ 2)"

text \<open>
  The positivity invariants of the data model: channel length, width, oxide thickness,
  mobility, dielectric constant and saturation velocity are strictly positive.  The
  length, the width and the mobility are read without a default, so their keys are
  present; \<open>L\<close>, \<open>W\<close> and \<open>mu_300\<close> name their values.
\<close>

definition positivity_invariants :: "pydict \<Rightarrow> pydict \<Rightarrow> real \<Rightarrow> real \<Rightarrow> real \<Rightarrow> bool" where
  "positivity_invariants material geometry L W mu_300 \<longleftrightarrow>
     geometry ''length'' = Some L \<and> 0 < L \<and>
     geometry ''width'' = Some W \<and> 0 < W \<and>
     0 < dict_get geometry ''oxide_thickness'' (2 / 10 ^ 9) \<and>
     material ''electron_mobility_value'' = Some mu_300 \<and> 0 < mu_300 \<and>
     0 < dict_get material ''dielectric_constant'' 3.9 \<and>
     0 < dict_get material ''saturation_velocity'' 10000000"



section \<open>Evaluation lemmas\<close>

lemma bind_result_Inr: "bind_result (Inr v) f = f v"
  by (simp add: bind_result_def)

lemma bind_result_Inl: "bind_result (Inl e) f = Inl e"
  by (simp add: bind_result_def)

lemma py_truediv_nonzero: "b \<noteq> 0 \<Longrightarrow> py_truediv a b = Inr (a / b)"
  by (simp add: py_truediv_def)

lemma py_truediv_zero: "py_truediv a 0 = Inl ZeroDivisionError"
  by (simp add: py_truediv_def)

lemma linear_current_value:
  "L \<noteq> 0 \<Longrightarrow>
   linear_current mu C_ox W L V_ov V_ds =
     Inr (mu * C_ox * (W / L) * (V_ov * V_ds - 0.5 * V_ds ^ 2))"
  by (simp add: linear_current_def py_truediv_nonzero bind_result_Inr)

lemma saturation_current_value:
  "L \<noteq> 0 \<Longrightarrow>
   saturation_current mu C_ox W L V_ov = Inr (0.5 * mu * C_ox * (W / L) * V_ov ^ 2)"
  by (simp add: saturation_current_def py_truediv_nonzero bind_result_Inr)

lemma dict_item_Some: "d k = Some v \<Longrightarrow> dict_item d k = Inr v"
  by (simp add: dict_item_def)

lemma temperature_dependent_mobility_value:
  "material ''electron_mobility_value'' = Some mu_300 \<Longrightarrow> T \<noteq> 0 \<Longrightarrow>
   temperature_dependent_mobility material T = Inr (mu_300 * (300 / T) ^ 2)"
  by (simp add: temperature_dependent_mobility_def dict_item_Some py_truediv_nonzero
      bind_result_Inr)

lemma dibl_effect_value:
  "L \<noteq> 0 \<Longrightarrow> dibl_effect V_th V_ds L = Inr (V_th - 0.1 / (L * 1000000) * V_ds)"
  by (simp add: dibl_effect_def py_truediv_nonzero bind_result_Inr)

lemma channel_length_modulation_value:
  "L \<noteq> 0 \<Longrightarrow> channel_length_modulation L V_ds = Inr (0.1 / (L * 1000000))"
  by (simp add: channel_length_modulation_def py_truediv_nonzero)

lemma simple_variant_value:
  assumes "geometry ''length'' = Some L" and "geometry ''width'' = Some W"
    and "material ''electron_mobility_value'' = Some mu_300"
    and "L \<noteq> 0" and "kelvin temperature \<noteq> 0"
    and "dict_get geometry ''oxide_thickness'' (2 / 10 ^ 9) \<noteq> 0"
  shows "calculate_with_short_channel_effects_simple V_gs V_ds material geometry temperature =
     (let T = kelvin temperature;
          mu_n = mu_300 * (300 / T) ^ 2;
          V_th0 = dict_get geometry ''V_th'' 0.7;
          V_th_sc = effective_threshold V_th0 T L V_ds;
          C_ox = dict_get material ''dielectric_constant'' 3.9 * epsilon_0 /
                 dict_get geometry ''oxide_thickness'' (2 / 10 ^ 9);
          d = diagnostics V_th_sc V_th0 0.8
      in if V_gs \<le> V_th_sc then Inr (0, Cut_off, d)
         else if V_ds < V_gs - V_th_sc then
           Inr (mu_n * C_ox * (W / L) * ((V_gs - V_th_sc) * V_ds - 0.5 * V_ds ^ 2), Linear, d)
         else
           Inr (0.5 * mu_n * C_ox * (W / L) * (V_gs - V_th_sc) ^ 2 *
                (1 + 0.1 / (L * 1000000) * (V_ds - (V_gs - V_th_sc))), Saturation, d))"
  using assms
  by (simp add: calculate_with_short_channel_effects_simple_def Let_def dict_item_Some
      temperature_dependent_mobility_value dibl_effect_value channel_length_modulation_value
      py_truediv_nonzero linear_current_value saturation_current_value bind_result_Inr
      temperature_dependent_vth_def effective_threshold_def)


lemma overdrive_divisor_nonzero:
  fixes a g :: real
  assumes "0 < a" and "0 < g"
  shows "1 + g / a \<noteq> 0"
proof -
  from assms have "0 < g / a" by simp
  then show ?thesis by linarith
qed

lemma velocity_saturation_voltage_value:
  assumes a: "0 < E_c * L" and g: "0 < V_gt"
  shows "velocity_saturation_voltage E_c L V_gt = Inr (V_gt / (1 + V_gt / (E_c * L)))"
proof -
  from a have "E_c * L \<noteq> 0" by linarith
  then have d1: "py_truediv V_gt (E_c * L) = Inr (V_gt / (E_c * L))"
    by (rule py_truediv_nonzero)
  have d2: "py_truediv V_gt (1 + V_gt / (E_c * L)) = Inr (V_gt / (1 + V_gt / (E_c * L)))"
    by (rule py_truediv_nonzero [OF overdrive_divisor_nonzero [OF a g]])
  show ?thesis
    by (simp only: velocity_saturation_voltage_def d1 bind_result_Inr d2)
qed

lemma velocity_linear_current_value:
  assumes "L \<noteq> 0" and "E_c \<noteq> 0" and nz: "1 + V_ds / (E_c * L) \<noteq> 0"
  shows "velocity_linear_current mu C_ox W L E_c V_gt V_ds =
     Inr (mu * C_ox * W / L * (V_gt * V_ds - 0.5 * V_ds ^ 2) / (1 + V_ds / (E_c * L)))"
proof -
  have d0: "py_truediv (mu * C_ox * W) L = Inr (mu * C_ox * W / L)"
    by (rule py_truediv_nonzero) fact
  from assms have "E_c * L \<noteq> 0" by simp
  then have d1: "py_truediv V_ds (E_c * L) = Inr (V_ds / (E_c * L))"
    by (rule py_truediv_nonzero)
  show ?thesis
    by (simp only: velocity_linear_current_def d0 d1 bind_result_Inr py_truediv_nonzero [OF nz])
qed

lemma velocity_saturation_current_value:
  assumes a: "0 < E_c * L" and g: "0 < V_gt"
  shows "velocity_saturation_current mu C_ox W L E_c V_gt =
     Inr (0.5 * mu * C_ox * W / L * V_gt ^ 2 / (1 + V_gt / (E_c * L)))"
proof -
  from a have "L \<noteq> 0" by auto
  then have d0: "py_truediv (0.5 * mu * C_ox * W) L = Inr (0.5 * mu * C_ox * W / L)"
    by (rule py_truediv_nonzero)
  from a have "E_c * L \<noteq> 0" by linarith
  then have d1: "py_truediv V_gt (E_c * L) = Inr (V_gt / (E_c * L))"
    by (rule py_truediv_nonzero)
  show ?thesis
    by (simp only: velocity_saturation_current_def d0 d1 bind_result_Inr
        py_truediv_nonzero [OF overdrive_divisor_nonzero [OF a g]])
qed


lemma bind_result_eq_Inr: "bind_result r f = Inr y \<longleftrightarrow> (\<exists>v. r = Inr v \<and> f v = Inr y)"
  by (cases r) (simp_all add: bind_result_def)

lemma py_truediv_eq_Inr: "py_truediv a b = Inr c \<longleftrightarrow> b \<noteq> 0 \<and> c = a / b"
  by (auto simp add: py_truediv_def)

lemma dict_item_eq_Inr: "dict_item d k = Inr v \<longleftrightarrow> d k = Some v"
  by (simp add: dict_item_def split: option.splits)

lemma simple_variant_diagnostics:
  assumes "calculate_with_short_channel_effects_simple V_gs V_ds material geometry temperature =
             Inr (I_d, r, d)"
    and "geometry ''length'' = Some L"
  shows "d = diagnostics
           (effective_threshold (dict_get geometry ''V_th'' 0.7) (kelvin temperature) L V_ds)
           (dict_get geometry ''V_th'' 0.7) 0.8"
  using assms
  by (auto simp add: calculate_with_short_channel_effects_simple_def Let_def
      bind_result_eq_Inr py_truediv_eq_Inr dict_item_eq_Inr dibl_effect_def
      effective_threshold_def temperature_dependent_vth_def split: if_splits)

lemma vsat_variant_diagnostics:
  assumes "calculate_with_short_channel_effects_vsat V_gs V_ds material geometry temperature =
             Inr (I_d, r, d)"
    and "geometry ''length'' = Some L"
    and "material ''electron_mobility_value'' = Some mu_300"
  shows "d = (let V_th0 = dict_get geometry ''V_th'' 0.7;
                  V_th_eff = effective_threshold V_th0 (kelvin temperature) L V_ds;
                  E_c = critical_field (dict_get material ''saturation_velocity'' 10000000)
                          mu_300 (kelvin temperature);
                  V_gt = V_gs - V_th_eff;
                  V_ds_sat = V_gt / (1 + V_gt / (E_c * L))
              in diagnostics V_th_eff V_th0 (if V_th_eff < V_gs then V_ds_sat / V_gt else 0))"
  using assms
  by (auto simp add: calculate_with_short_channel_effects_vsat_def Let_def
      bind_result_eq_Inr py_truediv_eq_Inr dict_item_eq_Inr dibl_effect_def
      effective_threshold_def temperature_dependent_vth_def critical_field_def
      temperature_dependent_mobility_def velocity_saturation_voltage_def
      split: if_splits)

lemma vsat_boundary_algebra:
  fixes a g :: real
  assumes a: "0 < a" and g: "0 < g"
  shows "(g * (g / (1 + g / a)) - 0.5 * (g / (1 + g / a)) ^ 2) / (1 + g / (1 + g / a) / a) =
         0.5 * g ^ 2 / (1 + g / a)"
proof -
  define u where "u = 1 + g / a"
  define w where "w = 2 * u - 1"
  from a g have "0 < g / a" by simp
  then have u: "0 < u" and w: "0 < w" by (simp_all add: u_def w_def)
  have "g / u / a = g / a / u" by simp
  also have "\<dots> = (u - 1) / u" by (simp add: u_def)
  finally have q: "g / u / a = (u - 1) / u" .
  have den: "1 + (u - 1) / u = w / u"
    using u by (simp add: w_def field_simps)
  have num: "g * (g / u) - 0.5 * (g / u) ^ 2 = g ^ 2 * w / (2 * u ^ 2)"
    using u by (simp add: w_def field_simps power2_eq_square)
  have "g ^ 2 * w / (2 * u ^ 2) / (w / u) = 0.5 * g ^ 2 / u"
    using u w by (simp add: field_simps power2_eq_square)
  then have "(g * (g / u) - 0.5 * (g / u) ^ 2) / (1 + g / u / a) = 0.5 * g ^ 2 / u"
    by (simp only: q den num)
  then show ?thesis by (simp only: u_def)
qed


section \<open>Monotonicity of the region currents\<close>

text \<open>
  With \<open>g0\<close> the overdrive at zero drain voltage and \<open>eta\<close> the DIBL coefficient, the
  overdrive at the drain voltage \<open>x\<close> is \<open>g0 + eta * x\<close>; the basic evaluator is the case
  \<open>eta = 0\<close>.
\<close>

lemma triode_below_pinch_off:
  fixes k g x :: real
  assumes "0 \<le> k"
  shows "k * (g * x - 0.5 * x ^ 2) \<le> 0.5 * k * g ^ 2"
proof -
  have "0.5 * k * g ^ 2 - k * (g * x - 0.5 * x ^ 2) = 0.5 * k * (g - x) ^ 2"
    by (simp add: power2_eq_square algebra_simps)
  moreover from assms have "0 \<le> 0.5 * k * (g - x) ^ 2" by simp
  ultimately show ?thesis by linarith
qed

lemma triode_rises:
  fixes k g0 eta x y :: real
  assumes k: "0 \<le> k" and eta: "0 \<le> eta" and x: "0 \<le> x" and xy: "x \<le> y"
    and lx: "x < g0 + eta * x" and ly: "y < g0 + eta * y"
  shows "k * ((g0 + eta * x) * x - 0.5 * x ^ 2) \<le> k * ((g0 + eta * y) * y - 0.5 * y ^ 2)"
proof -
  have "0 \<le> eta * (x + y)" using eta x xy by simp
  then have "0 \<le> eta * x + eta * y" by (simp add: algebra_simps)
  with lx ly have pos: "0 \<le> g0 + (eta * x + eta * y) - 0.5 * (x + y)" by simp
  have "((g0 + eta * y) * y - 0.5 * y ^ 2) - ((g0 + eta * x) * x - 0.5 * x ^ 2) =
        (y - x) * (g0 + (eta * x + eta * y) - 0.5 * (x + y))"
    by (simp add: power2_eq_square field_simps)
  moreover from xy pos have "0 \<le> (y - x) * (g0 + (eta * x + eta * y) - 0.5 * (x + y))"
    by simp
  ultimately have "(g0 + eta * x) * x - 0.5 * x ^ 2 \<le> (g0 + eta * y) * y - 0.5 * y ^ 2"
    by linarith
  then show ?thesis using k by (rule mult_left_mono)
qed

lemma saturation_rises:
  fixes k g0 eta x y :: real
  assumes k: "0 \<le> k" and eta: "0 \<le> eta" and g0: "0 < g0" and x: "0 \<le> x" and xy: "x \<le> y"
    and sx: "g0 + eta * x \<le> x"
  shows "0.5 * k * (g0 + eta * x) ^ 2 * (1 + eta * (x - (g0 + eta * x))) \<le>
         0.5 * k * (g0 + eta * y) ^ 2 * (1 + eta * (y - (g0 + eta * y)))"
proof -
  have gx: "0 \<le> g0 + eta * x" using g0 eta x by simp
  have gxy: "g0 + eta * x \<le> g0 + eta * y" using eta xy by (simp add: mult_left_mono)
  from sx g0 have px: "0 < (1 - eta) * x" by (simp add: algebra_simps)
  have eta1: "eta < 1"
  proof (rule ccontr)
    assume "\<not> eta < 1"
    then have "1 - eta \<le> 0" by simp
    then have "(1 - eta) * x \<le> 0" using x by (rule mult_nonpos_nonneg)
    with px show False by simp
  qed
  then have "(1 - eta) * x \<le> (1 - eta) * y" using xy by (simp add: mult_left_mono)
  then have d: "x - (g0 + eta * x) \<le> y - (g0 + eta * y)" by (simp add: algebra_simps)
  from sx have dx: "0 \<le> x - (g0 + eta * x)" by simp
  have f1: "0 \<le> 1 + eta * (x - (g0 + eta * x))" using eta dx by simp
  have f2: "1 + eta * (x - (g0 + eta * x)) \<le> 1 + eta * (y - (g0 + eta * y))"
    using eta d by (simp add: mult_left_mono)
  have sq: "(g0 + eta * x) ^ 2 \<le> (g0 + eta * y) ^ 2"
    using gxy gx by (rule power_mono)
  have "(g0 + eta * x) ^ 2 * (1 + eta * (x - (g0 + eta * x))) \<le>
        (g0 + eta * y) ^ 2 * (1 + eta * (y - (g0 + eta * y)))"
    using sq f2 by (rule mult_mono) (use f1 in simp_all)
  then have "0.5 * k * ((g0 + eta * x) ^ 2 * (1 + eta * (x - (g0 + eta * x)))) \<le>
        0.5 * k * ((g0 + eta * y) ^ 2 * (1 + eta * (y - (g0 + eta * y))))"
    using k by (simp add: mult_left_mono)
  then show ?thesis by (simp only: mult.assoc)
qed

lemma saturation_stays:
  fixes g0 eta x y :: real
  assumes eta: "0 \<le> eta" and g0: "0 < g0" and x: "0 \<le> x" and xy: "x \<le> y"
    and sx: "g0 + eta * x \<le> x"
  shows "g0 + eta * y \<le> y"
proof -
  from sx g0 have px: "0 < (1 - eta) * x" by (simp add: algebra_simps)
  have eta1: "eta < 1"
  proof (rule ccontr)
    assume "\<not> eta < 1"
    then have "1 - eta \<le> 0" by simp
    then have "(1 - eta) * x \<le> 0" using x by (rule mult_nonpos_nonneg)
    with px show False by simp
  qed
  then have "(1 - eta) * x \<le> (1 - eta) * y" using xy by (simp add: mult_left_mono)
  with sx show ?thesis by (simp add: algebra_simps)
qed

lemma triode_to_saturation:
  fixes k g0 eta x y :: real
  assumes k: "0 \<le> k" and eta: "0 \<le> eta" and g0: "0 < g0" and x: "0 \<le> x" and xy: "x \<le> y"
    and sy: "g0 + eta * y \<le> y"
  shows "k * ((g0 + eta * x) * x - 0.5 * x ^ 2) \<le>
         0.5 * k * (g0 + eta * y) ^ 2 * (1 + eta * (y - (g0 + eta * y)))"
proof -
  have gx: "0 \<le> g0 + eta * x" using g0 eta x by simp
  have gxy: "g0 + eta * x \<le> g0 + eta * y" using eta xy by (simp add: mult_left_mono)
  have sq: "(g0 + eta * x) ^ 2 \<le> (g0 + eta * y) ^ 2"
    using gxy gx by (rule power_mono)
  have "k * ((g0 + eta * x) * x - 0.5 * x ^ 2) \<le> 0.5 * k * (g0 + eta * x) ^ 2"
    using k by (rule triode_below_pinch_off)
  also have "\<dots> \<le> 0.5 * k * (g0 + eta * y) ^ 2"
    using k sq by (simp add: mult_left_mono)
  also have "\<dots> \<le> 0.5 * k * (g0 + eta * y) ^ 2 * (1 + eta * (y - (g0 + eta * y)))"
  proof -
    from sy eta have "0 \<le> eta * (y - (g0 + eta * y))" by simp
    then have "1 \<le> 1 + eta * (y - (g0 + eta * y))" by simp
    moreover have "0 \<le> 0.5 * k * (g0 + eta * y) ^ 2" using k by simp
    ultimately have "0.5 * k * (g0 + eta * y) ^ 2 * 1 \<le>
        0.5 * k * (g0 + eta * y) ^ 2 * (1 + eta * (y - (g0 + eta * y)))"
      by (rule mult_left_mono)
    then show ?thesis by simp
  qed
  finally show ?thesis .
qed

lemma region_current_monotone:
  fixes k g0 eta x y :: real
  assumes k: "0 \<le> k" and eta: "0 \<le> eta" and g0: "0 < g0" and x: "0 \<le> x" and xy: "x \<le> y"
  shows "(if x < g0 + eta * x then k * ((g0 + eta * x) * x - 0.5 * x ^ 2)
          else 0.5 * k * (g0 + eta * x) ^ 2 * (1 + eta * (x - (g0 + eta * x)))) \<le>
         (if y < g0 + eta * y then k * ((g0 + eta * y) * y - 0.5 * y ^ 2)
          else 0.5 * k * (g0 + eta * y) ^ 2 * (1 + eta * (y - (g0 + eta * y))))"
proof (cases "x < g0 + eta * x")
  case lx: True
  show ?thesis
  proof (cases "y < g0 + eta * y")
    case ly: True
    show ?thesis
      unfolding if_P [OF lx] if_P [OF ly]
      by (rule triode_rises [OF k eta x xy lx ly])
  next
    case ny: False
    then have sy: "g0 + eta * y \<le> y" by simp
    show ?thesis
      unfolding if_P [OF lx] if_not_P [OF ny]
      by (rule triode_to_saturation [OF k eta g0 x xy sy])
  qed
next
  case nx: False
  then have sx: "g0 + eta * x \<le> x" by simp
  then have sy: "g0 + eta * y \<le> y"
    by (rule saturation_stays [OF eta g0 x xy])
  then have ny: "\<not> y < g0 + eta * y" by simp
  show ?thesis
    unfolding if_not_P [OF nx] if_not_P [OF ny]
    by (rule saturation_rises [OF k eta g0 x xy sx])
qed

lemma product_current_monotone:
  fixes a b c g0 eta x y :: real
  assumes k: "0 \<le> a * b * c" and eta: "0 \<le> eta" and g0: "0 < g0"
    and x: "0 \<le> x" and xy: "x \<le> y"
  shows "(if x < g0 + eta * x then a * b * c * ((g0 + eta * x) * x - 0.5 * x ^ 2)
          else 0.5 * a * b * c * (g0 + eta * x) ^ 2 * (1 + eta * (x - (g0 + eta * x)))) \<le>
         (if y < g0 + eta * y then a * b * c * ((g0 + eta * y) * y - 0.5 * y ^ 2)
          else 0.5 * a * b * c * (g0 + eta * y) ^ 2 * (1 + eta * (y - (g0 + eta * y))))"
proof -
  have e: "0.5 * a * b * c = 0.5 * (a * b * c)" by simp
  show ?thesis
    unfolding e by (rule region_current_monotone [OF k eta g0 x xy])
qed

lemma basic_current_monotone:
  fixes a b c g0 x y :: real
  assumes k: "0 \<le> a * b * c" and g0: "0 < g0" and x: "0 \<le> x" and xy: "x \<le> y"
  shows "(if x < g0 then a * b * c * (g0 * x - 0.5 * x ^ 2) else 0.5 * a * b * c * g0 ^ 2) \<le>
         (if y < g0 then a * b * c * (g0 * y - 0.5 * y ^ 2) else 0.5 * a * b * c * g0 ^ 2)"
proof -
  have z1: "g0 + 0 * v = g0" for v by simp
  have z2: "u * (1 + 0 * t) = u" for u t :: real by simp
  show ?thesis
    using product_current_monotone [OF k order_refl g0 x xy] unfolding z1 z2 .
qed

lemma basic_conducting_value:
  assumes L: "dict_get geometry ''length'' (1 / 1000000) \<noteq> 0"
    and on: "dict_get geometry ''V_th'' 0.7 < V_gs"
  shows "calculate_drain_current V_gs V_ds material geometry =
     Inr (if V_ds < V_gs - dict_get geometry ''V_th'' 0.7 then
            dict_get material ''electron_mobility_value'' 1400 * (1 / 10000) *
            dict_get geometry ''C_ox'' (345 / 100000) *
            (dict_get geometry ''width'' (10 / 1000000) /
             dict_get geometry ''length'' (1 / 1000000)) *
            ((V_gs - dict_get geometry ''V_th'' 0.7) * V_ds - 0.5 * V_ds ^ 2)
          else
            0.5 * (dict_get material ''electron_mobility_value'' 1400 * (1 / 10000)) *
            dict_get geometry ''C_ox'' (345 / 100000) *
            (dict_get geometry ''width'' (10 / 1000000) /
             dict_get geometry ''length'' (1 / 1000000)) *
            (V_gs - dict_get geometry ''V_th'' 0.7) ^ 2,
          if V_ds < V_gs - dict_get geometry ''V_th'' 0.7 then Linear else Saturation)"
proof -
  from on have m: "max (V_gs - dict_get geometry ''V_th'' 0.7) 0 =
      V_gs - dict_get geometry ''V_th'' 0.7"
    and off: "\<not> V_gs \<le> dict_get geometry ''V_th'' 0.7"
    by simp_all
  show ?thesis
    by (simp only: calculate_drain_current_def Let_def m off if_False
        linear_current_value [OF L] saturation_current_value [OF L] bind_result_Inr
        if_distrib [of Inr] if_distrib [of "\<lambda>p. bind_result p f" for f] flip: if_distrib [of "\<lambda>p. (p, r)" for r])
       (simp split: if_splits)
qed

lemma simple_conducting_value:
  assumes len: "geometry ''length'' = Some L" and wid: "geometry ''width'' = Some W"
    and mob: "material ''electron_mobility_value'' = Some mu_300"
    and L: "L \<noteq> 0" and T: "kelvin temperature \<noteq> 0"
    and tox: "dict_get geometry ''oxide_thickness'' (2 / 10 ^ 9) \<noteq> 0"
    and on: "effective_threshold (dict_get geometry ''V_th'' 0.7) (kelvin temperature) L V_ds
               < V_gs"
  shows "calculate_with_short_channel_effects_simple V_gs V_ds material geometry temperature =
     Inr (if V_ds < V_gs - effective_threshold (dict_get geometry ''V_th'' 0.7)
                           (kelvin temperature) L V_ds
          then
            mu_300 * (300 / kelvin temperature) ^ 2 *
            (dict_get material ''dielectric_constant'' 3.9 * epsilon_0 /
             dict_get geometry ''oxide_thickness'' (2 / 10 ^ 9)) * (W / L) *
            ((V_gs - effective_threshold (dict_get geometry ''V_th'' 0.7)
                       (kelvin temperature) L V_ds) * V_ds - 0.5 * V_ds ^ 2)
          else
            0.5 * (mu_300 * (300 / kelvin temperature) ^ 2) *
            (dict_get material ''dielectric_constant'' 3.9 * epsilon_0 /
             dict_get geometry ''oxide_thickness'' (2 / 10 ^ 9)) * (W / L) *
            (V_gs - effective_threshold (dict_get geometry ''V_th'' 0.7)
                      (kelvin temperature) L V_ds) ^ 2 *
            (1 + 0.1 / (L * 1000000) *
               (V_ds - (V_gs - effective_threshold (dict_get geometry ''V_th'' 0.7)
                                 (kelvin temperature) L V_ds))),
          if V_ds < V_gs - effective_threshold (dict_get geometry ''V_th'' 0.7)
                           (kelvin temperature) L V_ds
          then Linear else Saturation,
          diagnostics
            (effective_threshold (dict_get geometry ''V_th'' 0.7) (kelvin temperature) L V_ds)
            (dict_get geometry ''V_th'' 0.7) 0.8)"
proof -
  from on have off: "\<not> V_gs \<le> effective_threshold (dict_get geometry ''V_th'' 0.7)
                                  (kelvin temperature) L V_ds"
    by simp
  show ?thesis
    unfolding simple_variant_value
        [where geometry = geometry and material = material, OF len wid mob L T tox]
      Let_def if_not_P [OF off]
    by (cases "V_ds < V_gs - effective_threshold (dict_get geometry ''V_th'' 0.7)
                           (kelvin temperature) L V_ds")
       (simp_all only: if_True if_False)
qed

section \<open>Magnitudes of the computed quantities\<close>






lemmas eval_defs =
  calculate_with_short_channel_effects_simple_def calculate_with_short_channel_effects_vsat_def
  Let_def dict_item_def dict_get_def silicon_def micron_geometry_def bind_result_def
  py_truediv_def kelvin_def default_temperature_def temperature_dependent_mobility_def
  temperature_dependent_vth_def dibl_effect_def channel_length_modulation_def epsilon_0_def
  linear_current_def saturation_current_def velocity_saturation_voltage_def
  velocity_linear_current_def velocity_saturation_current_def power2_eq_square

section \<open>The basic evaluator: regions and currents\<close>

text \<open>
  Claim C1.  Whenever the channel length (after the default) is not zero, the basic
  evaluator returns, in this order of priority: current 0 and region Cut-off if
  \<open>V_gs \<le> V_th\<close>; otherwise region Linear with the triode current if
  \<open>V_ds < max (V_gs - V_th) 0\<close>; otherwise region Saturation with the square-law
  current.  The mobility enters multiplied by \<open>1e-4\<close>, and every missing key takes its
  default.
\<close>

theorem basic_evaluator_priority_order:
  assumes "dict_get geometry ''length'' (1 / 1000000) \<noteq> 0"
  shows "calculate_drain_current V_gs V_ds material geometry =
     (let mu = dict_get material ''electron_mobility_value'' 1400;
          C_ox = dict_get geometry ''C_ox'' (345 / 100000);
          W = dict_get geometry ''width'' (10 / 1000000);
          L = dict_get geometry ''length'' (1 / 1000000);
          V_th = dict_get geometry ''V_th'' 0.7
      in if V_gs \<le> V_th then Inr (0, Cut_off)
         else if V_ds < max (V_gs - V_th) 0 then
           Inr ((mu * (1 / 10000)) * C_ox * (W / L) * ((V_gs - V_th) * V_ds - 0.5 * V_ds ^ 2),
                Linear)
         else
           Inr (0.5 * (mu * (1 / 10000)) * C_ox * (W / L) * (V_gs - V_th) ^ 2, Saturation))"
  using assms
  by (simp add: calculate_drain_current_def Let_def linear_current_value
      saturation_current_value bind_result_Inr)

theorem basic_evaluator_priority_order_witness:
  "dict_get Map.empty ''length'' (1 / 1000000) \<noteq> 0 \<and>
   calculate_drain_current 3 1 silicon Map.empty = Inr (8694 / 1000000, Linear)"
proof -
  have len: "dict_get Map.empty ''length'' (1 / 1000000) \<noteq> 0"
    by (simp add: dict_get_def)
  show ?thesis
    using basic_evaluator_priority_order [OF len, of 3 1 silicon]
    by (simp add: dict_get_def silicon_def Let_def power2_eq_square)
qed

text \<open>
  Claim C4, as stated: with the silicon mobility and the default geometry, the inputs
  \<open>V_gs = 3\<close>, \<open>V_ds = 5\<close> give a drain current of about \<open>1.243e-3\<close> A.  The evaluator
  returns \<open>1.277535e-2\<close> A, about ten times as much.
\<close>

theorem example_1_current_counterexample:
  "calculate_drain_current 3 5 silicon Map.empty = Inr (1277535 / 100000000, Saturation) \<and>
   \<not> \<bar>1277535 / 100000000 - 1243 / 1000000\<bar> \<le> (1 / 100000 :: real)"
  by (simp add: calculate_drain_current_def Let_def dict_get_def silicon_def
      saturation_current_def py_truediv_def bind_result_def power2_eq_square)

text \<open>
  Claim C4, amended: with the silicon mobility and the default geometry, the inputs
  \<open>V_gs = 3\<close>, \<open>V_ds = 5\<close> give the saturation voltage 2.3 V, region Saturation and the
  drain current \<open>0.5 * 0.14 * 3.45e-3 * 10 * 2.3\<^sup>2 = 1.277535e-2\<close> A.
\<close>

theorem example_1_saturation_current:
  "max (3 - dict_get Map.empty ''V_th'' 0.7) 0 = 2.3 \<and>
   calculate_drain_current 3 5 silicon Map.empty = Inr (0.01277535, Saturation)"
  by (simp add: calculate_drain_current_def Let_def dict_get_def silicon_def
      saturation_current_def py_truediv_def bind_result_def power2_eq_square)

text \<open>
  Claim C10.  The basic evaluator reads the material only through
  \<open>electron_mobility_value\<close>, and the geometry only through \<open>C_ox\<close>, \<open>width\<close>, \<open>length\<close>
  and \<open>V_th\<close>: two calls whose dictionaries agree on these keys return the same
  current and region, whatever the other entries are.
\<close>

theorem basic_evaluator_reads_only_mobility:
  assumes "material1 ''electron_mobility_value'' = material2 ''electron_mobility_value''"
    and "geometry1 ''C_ox'' = geometry2 ''C_ox''"
    and "geometry1 ''width'' = geometry2 ''width''"
    and "geometry1 ''length'' = geometry2 ''length''"
    and "geometry1 ''V_th'' = geometry2 ''V_th''"
  shows "calculate_drain_current V_gs V_ds material1 geometry1 =
         calculate_drain_current V_gs V_ds material2 geometry2"
  using assms by (simp add: calculate_drain_current_def dict_get_def)

theorem basic_evaluator_reads_only_mobility_witness:
  "silicon ''electron_mobility_value'' = silicon_variant ''electron_mobility_value'' \<and>
   calculate_drain_current 3 1 silicon micron_geometry =
     calculate_drain_current 3 1 silicon_variant micron_geometry"
proof -
  have same: "silicon ''electron_mobility_value'' = silicon_variant ''electron_mobility_value''"
    by (simp add: silicon_variant_def)
  from same
    basic_evaluator_reads_only_mobility
      [where ?material1.0 = silicon and ?material2.0 = silicon_variant
         and ?geometry1.0 = micron_geometry and ?geometry2.0 = micron_geometry
         and V_gs = 3 and V_ds = 1,
       OF same refl refl refl refl]
  show ?thesis by (rule conjI)
qed

section \<open>Breakdown voltage\<close>

text \<open>
  Claim C9.  The breakdown voltage is the breakdown field, converted from MV/cm to V/cm,
  times the thickness converted to centimetres by the factor \<open>1e-4\<close> (so the argument is
  in micrometres); it is linear in the thickness, with no case distinction.  For
  silicon and a thickness of 100 nm, that is 0.1 micrometre or \<open>1e-5\<close> cm, it is 3 V.
\<close>

theorem breakdown_voltage_linear_scaling:
  "calculate_breakdown_voltage material thickness =
     (dict_get material ''breakdown_field_value'' 0.3 * 1000000) * (thickness * (1 / 10000)) \<and>
   calculate_breakdown_voltage material (c * thickness) =
     c * calculate_breakdown_voltage material thickness \<and>
   calculate_breakdown_voltage silicon 0.1 = 3"
  by (simp add: calculate_breakdown_voltage_def Let_def dict_get_def silicon_def)

section \<open>The extended evaluator: mobility and temperature\<close>

text \<open>
  Claim C2.  The claim asks for the mobility in SI units in the extended current
  formulas.  At \<open>V_gs = 3\<close>, \<open>V_ds = 1\<close>, silicon, a one micrometre channel and 300 K
  (26.85 degrees Celsius) the variant of app\_enhanced.py is in the linear region and
  returns the current computed with the mobility 1400, in \<open>cm\<^sup>2/Vs\<close>; this is not the
  current computed with \<open>1400 * 1e-4\<close>.
\<close>

theorem extended_current_uses_unconverted_mobility:
  "calculate_with_short_channel_effects_simple 3 1 silicon micron_geometry (Some 26.85) =
     Inr (1400 * (11.7 * epsilon_0 / (2 / 10 ^ 9)) * 10 * (2.4 * 1 - 0.5 * 1 ^ 2), Linear,
          diagnostics 0.6 0.7 0.8) \<and>
   1400 * (11.7 * epsilon_0 / (2 / 10 ^ 9)) * 10 * (2.4 * 1 - 0.5 * 1 ^ 2) \<noteq>
   (1400 * (1 / 10000)) * (11.7 * epsilon_0 / (2 / 10 ^ 9)) * 10 * (2.4 * 1 - 0.5 * 1 ^ 2)"
  by (simp add: eval_defs)

text \<open>
  Claim C3.  The claim asks for a default temperature of 27 degrees Celsius.  A call
  without a temperature is a call with the temperature 300, for both variants; the
  Kelvin temperature is then 573.15 and not 300.15, and the result differs from that
  of a call with 27.
\<close>

theorem default_temperature_is_300_celsius:
  "calculate_with_short_channel_effects_simple V_gs V_ds material geometry None =
     calculate_with_short_channel_effects_simple V_gs V_ds material geometry (Some 300) \<and>
   calculate_with_short_channel_effects_vsat V_gs V_ds material geometry None =
     calculate_with_short_channel_effects_vsat V_gs V_ds material geometry (Some 300) \<and>
   kelvin None = 573.15 \<and> kelvin (Some 27) = 300.15 \<and>
   calculate_with_short_channel_effects_simple 1 1 silicon micron_geometry None \<noteq>
     calculate_with_short_channel_effects_simple 1 1 silicon micron_geometry (Some 27)"
  by (simp add: eval_defs)

section \<open>The extended evaluator: diagnostics\<close>

text \<open>
  Claim C5, as stated: both variants return a velocity-saturation ratio that is
  \<open>V_ds_sat / V_gt\<close> in conduction and 0 otherwise.  The variant of app\_enhanced.py
  returns the constant 0.8, here at a cut-off input.
\<close>

theorem simple_variant_factor_counterexample:
  "calculate_with_short_channel_effects_simple 0 0 silicon micron_geometry (Some 26.85) =
     Inr (0, Cut_off, diagnostics 0.7 0.7 0.8) \<and>
   diagnostics 0.7 0.7 0.8 ''velocity_saturation_factor'' \<noteq> Some 0"
  by (simp add: eval_defs diagnostics_def)

text \<open>
  Claim C5, amended.  Whenever an extended evaluator returns, its diagnostics map holds
  the effective threshold voltage under \<open>effective_vth\<close> and the shift
  \<open>V_th_eff - V_th0\<close> under \<open>dibl_effect\<close>.  Under \<open>velocity_saturation_factor\<close> the
  variant with velocity saturation holds \<open>V_ds_sat / V_gt\<close> if \<open>V_gs > V_th_eff\<close> and 0
  otherwise; the variant without holds the constant 0.8.
\<close>

theorem extended_diagnostics_contents:
  assumes len: "geometry ''length'' = Some L"
    and mob: "material ''electron_mobility_value'' = Some mu_300"
  shows
    "(let V_th0 = dict_get geometry ''V_th'' 0.7;
          V_th_eff = effective_threshold V_th0 (kelvin temperature) L V_ds;
          E_c = critical_field (dict_get material ''saturation_velocity'' 10000000)
                  mu_300 (kelvin temperature);
          V_gt = V_gs - V_th_eff;
          V_ds_sat = V_gt / (1 + V_gt / (E_c * L))
      in (calculate_with_short_channel_effects_simple V_gs V_ds material geometry temperature =
            Inr (I_s, r_s, d_s) \<longrightarrow>
          d_s ''effective_vth'' = Some V_th_eff \<and>
          d_s ''dibl_effect'' = Some (V_th_eff - V_th0) \<and>
          d_s ''velocity_saturation_factor'' = Some 0.8) \<and>
         (calculate_with_short_channel_effects_vsat V_gs V_ds material geometry temperature =
            Inr (I_v, r_v, d_v) \<longrightarrow>
          d_v ''effective_vth'' = Some V_th_eff \<and>
          d_v ''dibl_effect'' = Some (V_th_eff - V_th0) \<and>
          d_v ''velocity_saturation_factor'' =
            Some (if V_th_eff < V_gs then V_ds_sat / V_gt else 0)))"
proof -
  have simple: "d_s = diagnostics
           (effective_threshold (dict_get geometry ''V_th'' 0.7) (kelvin temperature) L V_ds)
           (dict_get geometry ''V_th'' 0.7) 0.8"
    if "calculate_with_short_channel_effects_simple V_gs V_ds material geometry temperature =
            Inr (I_s, r_s, d_s)"
    using that len by (rule simple_variant_diagnostics)
  have vsat: "d_v = (let V_th0 = dict_get geometry ''V_th'' 0.7;
                  V_th_eff = effective_threshold V_th0 (kelvin temperature) L V_ds;
                  E_c = critical_field (dict_get material ''saturation_velocity'' 10000000)
                          mu_300 (kelvin temperature);
                  V_gt = V_gs - V_th_eff;
                  V_ds_sat = V_gt / (1 + V_gt / (E_c * L))
              in diagnostics V_th_eff V_th0 (if V_th_eff < V_gs then V_ds_sat / V_gt else 0))"
    if "calculate_with_short_channel_effects_vsat V_gs V_ds material geometry temperature =
            Inr (I_v, r_v, d_v)"
    using that len mob by (rule vsat_variant_diagnostics)
  show ?thesis
    unfolding Let_def
  proof (intro conjI impI)
    assume s: "calculate_with_short_channel_effects_simple V_gs V_ds material geometry
                 temperature = Inr (I_s, r_s, d_s)"
    show "d_s ''effective_vth'' = Some
            (effective_threshold (dict_get geometry ''V_th'' 0.7) (kelvin temperature) L V_ds)"
      and "d_s ''dibl_effect'' = Some
            (effective_threshold (dict_get geometry ''V_th'' 0.7) (kelvin temperature) L V_ds -
             dict_get geometry ''V_th'' 0.7)"
      and "d_s ''velocity_saturation_factor'' = Some 0.8"
      by (simp_all add: simple [OF s] diagnostics_def)
  next
    assume v: "calculate_with_short_channel_effects_vsat V_gs V_ds material geometry
                 temperature = Inr (I_v, r_v, d_v)"
    note d = vsat [OF v, unfolded Let_def]
    show "d_v ''effective_vth'' = Some
            (effective_threshold (dict_get geometry ''V_th'' 0.7) (kelvin temperature) L V_ds)"
      by (subst d) (simp add: diagnostics_def)
    show "d_v ''dibl_effect'' = Some
            (effective_threshold (dict_get geometry ''V_th'' 0.7) (kelvin temperature) L V_ds -
             dict_get geometry ''V_th'' 0.7)"
      by (subst d) (simp add: diagnostics_def)
    show "d_v ''velocity_saturation_factor'' =
       Some (if effective_threshold (dict_get geometry ''V_th'' 0.7) (kelvin temperature) L V_ds
                < V_gs
             then (V_gs - effective_threshold (dict_get geometry ''V_th'' 0.7)
                            (kelvin temperature) L V_ds) /
                  (1 + (V_gs - effective_threshold (dict_get geometry ''V_th'' 0.7)
                            (kelvin temperature) L V_ds) /
                       (critical_field (dict_get material ''saturation_velocity'' 10000000)
                          mu_300 (kelvin temperature) * L)) /
                  (V_gs - effective_threshold (dict_get geometry ''V_th'' 0.7)
                            (kelvin temperature) L V_ds)
             else 0)"
      by (subst d) (simp only: diagnostics_def fun_upd_same)
  qed
qed

theorem extended_diagnostics_contents_witness:
  "micron_geometry ''length'' = Some (1 / 1000000) \<and>
   silicon ''electron_mobility_value'' = Some 1400 \<and>
   calculate_with_short_channel_effects_simple 3 1 silicon micron_geometry (Some 26.85) =
     Inr (68888547 / 50000, Linear, diagnostics 0.6 0.7 0.8) \<and>
   calculate_with_short_channel_effects_vsat 3 1 silicon micron_geometry (Some 26.85) =
     Inr (60304261766931 / 882052500781250, Saturation, diagnostics 0.6 0.7 (1 / 33601)) \<and>
   diagnostics 0.6 0.7 0.8 ''effective_vth'' = Some 0.6 \<and>
   diagnostics 0.6 0.7 0.8 ''dibl_effect'' = Some (0.6 - 0.7) \<and>
   diagnostics 0.6 0.7 0.8 ''velocity_saturation_factor'' = Some 0.8 \<and>
   diagnostics 0.6 0.7 (1 / 33601) ''effective_vth'' = Some 0.6 \<and>
   diagnostics 0.6 0.7 (1 / 33601) ''dibl_effect'' = Some (0.6 - 0.7) \<and>
   diagnostics 0.6 0.7 (1 / 33601) ''velocity_saturation_factor'' = Some (1 / 33601)"
proof -
  have len: "micron_geometry ''length'' = Some (1 / 1000000)"
    by (simp add: micron_geometry_def)
  have mob: "silicon ''electron_mobility_value'' = Some 1400"
    by (simp add: silicon_def)
  have s: "calculate_with_short_channel_effects_simple 3 1 silicon micron_geometry (Some 26.85) =
     Inr (68888547 / 50000, Linear, diagnostics 0.6 0.7 0.8)"
    by (simp add: eval_defs)
  have v: "calculate_with_short_channel_effects_vsat 3 1 silicon micron_geometry (Some 26.85) =
     Inr (60304261766931 / 882052500781250, Saturation, diagnostics 0.6 0.7 (1 / 33601))"
    by (simp add: eval_defs)
  from extended_diagnostics_contents
    [where geometry = micron_geometry and material = silicon and L = "1 / 1000000"
       and ?mu_300.0 = 1400 and temperature = "Some 26.85" and V_gs = 3 and V_ds = 1
       and I_s = "68888547 / 50000" and r_s = Linear and d_s = "diagnostics 0.6 0.7 0.8"
       and I_v = "60304261766931 / 882052500781250" and r_v = Saturation
       and d_v = "diagnostics 0.6 0.7 (1 / 33601)", OF len mob]
    len mob s v
  show ?thesis
    by (simp add: Let_def effective_threshold_def critical_field_def dict_get_def
        micron_geometry_def silicon_def kelvin_def diagnostics_def)
qed

section \<open>Agreement of the current formulas at the boundary\<close>

text \<open>
  Claim C6.  For an overdrive \<open>V_gt > 0\<close> (and \<open>E_c * L > 0\<close>, which the positivity
  invariants give), the linear formula evaluated at \<open>V_ds = V_ds_sat\<close> yields the
  current of the saturation formula: for the basic evaluator, where
  \<open>V_ds_sat = max (V_gs - V_th) 0\<close>; for the extended variant without velocity
  saturation, where \<open>V_ds_sat = V_gt\<close> and the channel-length-modulation factor is 1 at
  the boundary; and for the variant with velocity saturation, where
  \<open>V_ds_sat = V_gt / (1 + V_gt / (E_c * L))\<close> and both formulas are divided.
\<close>

theorem boundary_currents_agree:
  assumes g: "0 < V_gt" and a: "0 < E_c * L"
  shows "linear_current mu C_ox W L V_gt (max V_gt 0) = saturation_current mu C_ox W L V_gt \<and>
         linear_current mu C_ox W L V_gt V_gt =
           bind_result (saturation_current mu C_ox W L V_gt)
             (\<lambda>I_d_sat. Inr (I_d_sat * (1 + lambda_clm * (V_gt - V_gt)))) \<and>
         saturation_current mu C_ox W L V_gt = Inr (0.5 * mu * C_ox * (W / L) * V_gt ^ 2) \<and>
         (\<exists>V_ds_sat I_d.
            velocity_saturation_voltage E_c L V_gt = Inr V_ds_sat \<and>
            velocity_linear_current mu C_ox W L E_c V_gt V_ds_sat = Inr I_d \<and>
            bind_result (velocity_saturation_current mu C_ox W L E_c V_gt)
              (\<lambda>I_d_sat. Inr (I_d_sat * (1 + lambda_clm * (V_ds_sat - V_ds_sat)))) = Inr I_d)"
proof -
  from a have L0: "L \<noteq> 0" and Ec0: "E_c \<noteq> 0" by auto
  from g have m: "max V_gt 0 = V_gt" by simp
  have lin: "linear_current mu C_ox W L V_gt V_gt = Inr (0.5 * mu * C_ox * (W / L) * V_gt ^ 2)"
    by (simp add: linear_current_value [OF L0] power2_eq_square algebra_simps)
  have sat: "saturation_current mu C_ox W L V_gt = Inr (0.5 * mu * C_ox * (W / L) * V_gt ^ 2)"
    by (rule saturation_current_value [OF L0])
  have clm: "bind_result (saturation_current mu C_ox W L V_gt)
               (\<lambda>I_d_sat. Inr (I_d_sat * (1 + lambda_clm * (V_gt - V_gt)))) =
             Inr (0.5 * mu * C_ox * (W / L) * V_gt ^ 2)"
    by (simp add: sat bind_result_Inr)
  define V_ds_sat where "V_ds_sat = V_gt / (1 + V_gt / (E_c * L))"
  have vs: "velocity_saturation_voltage E_c L V_gt = Inr V_ds_sat"
    unfolding V_ds_sat_def by (rule velocity_saturation_voltage_value [OF a g])
  from a g have "0 < V_ds_sat / (E_c * L)"
    by (simp add: V_ds_sat_def overdrive_divisor_nonzero pos_add_strict)
  then have nz: "1 + V_ds_sat / (E_c * L) \<noteq> 0" by linarith
  have vlin: "velocity_linear_current mu C_ox W L E_c V_gt V_ds_sat =
      Inr (mu * C_ox * W / L * (V_gt * V_ds_sat - 0.5 * V_ds_sat ^ 2) /
           (1 + V_ds_sat / (E_c * L)))"
    by (rule velocity_linear_current_value [OF L0 Ec0 nz])
  have vsat: "bind_result (velocity_saturation_current mu C_ox W L E_c V_gt)
      (\<lambda>I_d_sat. Inr (I_d_sat * (1 + lambda_clm * (V_ds_sat - V_ds_sat)))) =
      Inr (0.5 * mu * C_ox * W / L * V_gt ^ 2 / (1 + V_gt / (E_c * L)))"
    by (simp add: velocity_saturation_current_value [OF a g] bind_result_Inr)
  have "mu * C_ox * W / L * (V_gt * V_ds_sat - 0.5 * V_ds_sat ^ 2) / (1 + V_ds_sat / (E_c * L)) =
        mu * C_ox * W / L * ((V_gt * V_ds_sat - 0.5 * V_ds_sat ^ 2) / (1 + V_ds_sat / (E_c * L)))"
    by simp
  also have "\<dots> = mu * C_ox * W / L * (0.5 * V_gt ^ 2 / (1 + V_gt / (E_c * L)))"
    unfolding V_ds_sat_def by (simp only: vsat_boundary_algebra [OF a g])
  also have "\<dots> = 0.5 * mu * C_ox * W / L * V_gt ^ 2 / (1 + V_gt / (E_c * L))"
    by simp
  finally have agree: "velocity_linear_current mu C_ox W L E_c V_gt V_ds_sat =
      Inr (0.5 * mu * C_ox * W / L * V_gt ^ 2 / (1 + V_gt / (E_c * L)))"
    using vlin by simp
  from vs agree vsat have ex: "\<exists>V_ds_sat I_d.
            velocity_saturation_voltage E_c L V_gt = Inr V_ds_sat \<and>
            velocity_linear_current mu C_ox W L E_c V_gt V_ds_sat = Inr I_d \<and>
            bind_result (velocity_saturation_current mu C_ox W L E_c V_gt)
              (\<lambda>I_d_sat. Inr (I_d_sat * (1 + lambda_clm * (V_ds_sat - V_ds_sat)))) = Inr I_d"
    by blast
  from lin sat clm ex m show ?thesis by simp
qed

theorem boundary_currents_agree_witness:
  "(0::real) < 2.4 \<and> (0::real) < 500 / 7 * (1 / 1000000) \<and>
   linear_current 1400 0.05 (10 / 1000000) (1 / 1000000) 2.4 (max 2.4 0) =
     saturation_current 1400 0.05 (10 / 1000000) (1 / 1000000) 2.4 \<and>
   linear_current 1400 0.05 (10 / 1000000) (1 / 1000000) 2.4 2.4 =
     bind_result (saturation_current 1400 0.05 (10 / 1000000) (1 / 1000000) 2.4)
       (\<lambda>I_d_sat. Inr (I_d_sat * (1 + 0.1 * (2.4 - 2.4)))) \<and>
   saturation_current 1400 0.05 (10 / 1000000) (1 / 1000000) 2.4 =
     Inr (0.5 * 1400 * 0.05 * (10 / 1000000 / (1 / 1000000)) * 2.4 ^ 2) \<and>
   (\<exists>V_ds_sat I_d.
      velocity_saturation_voltage (500 / 7) (1 / 1000000) 2.4 = Inr V_ds_sat \<and>
      velocity_linear_current 1400 0.05 (10 / 1000000) (1 / 1000000) (500 / 7) 2.4 V_ds_sat =
        Inr I_d \<and>
      bind_result
        (velocity_saturation_current 1400 0.05 (10 / 1000000) (1 / 1000000) (500 / 7) 2.4)
        (\<lambda>I_d_sat. Inr (I_d_sat * (1 + 0.1 * (V_ds_sat - V_ds_sat)))) = Inr I_d)"
proof -
  have g: "(0::real) < 2.4" by simp
  have a: "(0::real) < 500 / 7 * (1 / 1000000)" by simp
  note agree = boundary_currents_agree [OF g a, where mu = 1400 and C_ox = "0.05"
      and W = "10 / 1000000" and lambda_clm = "0.1"]
  show ?thesis by (rule conjI [OF g conjI [OF a agree]])
qed

section \<open>Monotonicity in the drain voltage\<close>

text \<open>
  Claim C7.  For a fixed gate voltage above the threshold and drain voltages
  \<open>0 \<le> V_ds1 \<le> V_ds2\<close>, the drain current at \<open>V_ds1\<close> is at most the drain current at
  \<open>V_ds2\<close>: for the basic evaluator (mobility, capacitance and width not negative,
  length positive, \<open>V_gs\<close> above \<open>V_th\<close>), and for the extended evaluator of
  app\_enhanced.py (positivity invariants, \<open>V_gs\<close> above the temperature-corrected
  threshold, which the code calls \<open>V_th\<close>).  Both calls return a result.
\<close>

theorem drain_current_nondecreasing_in_drain_voltage:
  assumes x: "0 \<le> V_ds1" and xy: "V_ds1 \<le> V_ds2"
  shows
    "(0 \<le> dict_get material ''electron_mobility_value'' 1400 \<and>
      0 \<le> dict_get geometry ''C_ox'' (345 / 100000) \<and>
      0 \<le> dict_get geometry ''width'' (10 / 1000000) \<and>
      0 < dict_get geometry ''length'' (1 / 1000000) \<and>
      dict_get geometry ''V_th'' 0.7 < V_gs \<longrightarrow>
      (\<exists>I1 r1 I2 r2.
         calculate_drain_current V_gs V_ds1 material geometry = Inr (I1, r1) \<and>
         calculate_drain_current V_gs V_ds2 material geometry = Inr (I2, r2) \<and>
         I1 \<le> I2)) \<and>
     (positivity_invariants material geometry L W mu_300 \<and>
      kelvin temperature \<noteq> 0 \<and>
      temperature_dependent_vth (dict_get geometry ''V_th'' 0.7) (kelvin temperature) < V_gs
      \<longrightarrow>
      (\<exists>I1 r1 d1 I2 r2 d2.
         calculate_with_short_channel_effects_simple V_gs V_ds1 material geometry temperature =
           Inr (I1, r1, d1) \<and>
         calculate_with_short_channel_effects_simple V_gs V_ds2 material geometry temperature =
           Inr (I2, r2, d2) \<and>
         I1 \<le> I2))"
proof (intro conjI impI)
  assume h: "0 \<le> dict_get material ''electron_mobility_value'' 1400 \<and>
      0 \<le> dict_get geometry ''C_ox'' (345 / 100000) \<and>
      0 \<le> dict_get geometry ''width'' (10 / 1000000) \<and>
      0 < dict_get geometry ''length'' (1 / 1000000) \<and>
      dict_get geometry ''V_th'' 0.7 < V_gs"
  then have L0: "dict_get geometry ''length'' (1 / 1000000) \<noteq> 0"
    and on: "dict_get geometry ''V_th'' 0.7 < V_gs"
    by simp_all
  from on have g0: "0 < V_gs - dict_get geometry ''V_th'' 0.7" by simp
  from h have k: "0 \<le> dict_get material ''electron_mobility_value'' 1400 * (1 / 10000) *
      dict_get geometry ''C_ox'' (345 / 100000) *
      (dict_get geometry ''width'' (10 / 1000000) / dict_get geometry ''length'' (1 / 1000000))"
    by simp
  note v1 = basic_conducting_value [OF L0 on, of V_ds1 material]
  note v2 = basic_conducting_value [OF L0 on, of V_ds2 material]
  note le = basic_current_monotone [OF k g0 x xy]
  show "\<exists>I1 r1 I2 r2.
         calculate_drain_current V_gs V_ds1 material geometry = Inr (I1, r1) \<and>
         calculate_drain_current V_gs V_ds2 material geometry = Inr (I2, r2) \<and>
         I1 \<le> I2"
    by (intro exI conjI) (rule v1, rule v2, rule le)
next
  assume h: "positivity_invariants material geometry L W mu_300 \<and>
      kelvin temperature \<noteq> 0 \<and>
      temperature_dependent_vth (dict_get geometry ''V_th'' 0.7) (kelvin temperature) < V_gs"
  then have len: "geometry ''length'' = Some L" and L: "0 < L"
    and wid: "geometry ''width'' = Some W" and W: "0 < W"
    and tox: "0 < dict_get geometry ''oxide_thickness'' (2 / 10 ^ 9)"
    and mob: "material ''electron_mobility_value'' = Some mu_300" and mu: "0 < mu_300"
    and eps: "0 < dict_get material ''dielectric_constant'' 3.9"
    and T: "kelvin temperature \<noteq> 0"
    and on: "temperature_dependent_vth (dict_get geometry ''V_th'' 0.7) (kelvin temperature)
               < V_gs"
    by (simp_all add: positivity_invariants_def)
  define g0 where
    "g0 = V_gs - temperature_dependent_vth (dict_get geometry ''V_th'' 0.7) (kelvin temperature)"
  define eta :: real where "eta = 0.1 / (L * 1000000)"
  from on have g0: "0 < g0" by (simp add: g0_def)
  from L have eta: "0 \<le> eta" by (simp add: eta_def)
  from L have L0: "L \<noteq> 0" by simp
  from tox have tox0: "dict_get geometry ''oxide_thickness'' (2 / 10 ^ 9) \<noteq> 0" by simp
  have gt: "V_gs - effective_threshold (dict_get geometry ''V_th'' 0.7) (kelvin temperature) L v
              = g0 + eta * v" for v
    by (simp add: effective_threshold_def temperature_dependent_vth_def g0_def eta_def)
  have conducting: "effective_threshold (dict_get geometry ''V_th'' 0.7) (kelvin temperature) L v
              < V_gs" if "0 \<le> v" for v
  proof -
    from that eta have "0 \<le> eta * v" by simp
    with g0 have "0 < g0 + eta * v" by linarith
    then have "0 < V_gs - effective_threshold (dict_get geometry ''V_th'' 0.7)
                             (kelvin temperature) L v"
      by (simp only: gt)
    then show ?thesis by simp
  qed
  have k: "0 \<le> mu_300 * (300 / kelvin temperature) ^ 2 *
      (dict_get material ''dielectric_constant'' 3.9 * epsilon_0 /
       dict_get geometry ''oxide_thickness'' (2 / 10 ^ 9)) * (W / L)"
    using mu eps tox W L by (simp add: epsilon_0_def)
  from x xy have y: "0 \<le> V_ds2" by simp
  note v1 = simple_conducting_value
    [where geometry = geometry and material = material,
     OF len wid mob L0 T tox0 conducting [OF x], unfolded gt eta_def [symmetric]]
  note v2 = simple_conducting_value
    [where geometry = geometry and material = material,
     OF len wid mob L0 T tox0 conducting [OF y], unfolded gt eta_def [symmetric]]
  note le = product_current_monotone [OF k eta g0 x xy]
  show "\<exists>I1 r1 d1 I2 r2 d2.
         calculate_with_short_channel_effects_simple V_gs V_ds1 material geometry temperature =
           Inr (I1, r1, d1) \<and>
         calculate_with_short_channel_effects_simple V_gs V_ds2 material geometry temperature =
           Inr (I2, r2, d2) \<and>
         I1 \<le> I2"
    by (intro exI conjI) (rule v1, rule v2, rule le)
qed

theorem drain_current_nondecreasing_in_drain_voltage_witness:
  "(0::real) \<le> 1 \<and> (1::real) \<le> 5 \<and>
   (0 \<le> dict_get silicon ''electron_mobility_value'' 1400 \<and>
    0 \<le> dict_get micron_geometry ''C_ox'' (345 / 100000) \<and>
    0 \<le> dict_get micron_geometry ''width'' (10 / 1000000) \<and>
    0 < dict_get micron_geometry ''length'' (1 / 1000000) \<and>
    dict_get micron_geometry ''V_th'' 0.7 < 3) \<and>
   (positivity_invariants silicon micron_geometry (1 / 1000000) (10 / 1000000) 1400 \<and>
    kelvin (Some 26.85) \<noteq> 0 \<and>
    temperature_dependent_vth (dict_get micron_geometry ''V_th'' 0.7) (kelvin (Some 26.85)) < 3) \<and>
   (\<exists>I1 r1 I2 r2.
      calculate_drain_current 3 1 silicon micron_geometry = Inr (I1, r1) \<and>
      calculate_drain_current 3 5 silicon micron_geometry = Inr (I2, r2) \<and>
      I1 \<le> I2) \<and>
   (\<exists>I1 r1 d1 I2 r2 d2.
      calculate_with_short_channel_effects_simple 3 1 silicon micron_geometry (Some 26.85) =
        Inr (I1, r1, d1) \<and>
      calculate_with_short_channel_effects_simple 3 5 silicon micron_geometry (Some 26.85) =
        Inr (I2, r2, d2) \<and>
      I1 \<le> I2)"
proof -
  have x: "(0::real) \<le> 1" and xy: "(1::real) \<le> 5" by simp_all
  have hb: "0 \<le> dict_get silicon ''electron_mobility_value'' 1400 \<and>
    0 \<le> dict_get micron_geometry ''C_ox'' (345 / 100000) \<and>
    0 \<le> dict_get micron_geometry ''width'' (10 / 1000000) \<and>
    0 < dict_get micron_geometry ''length'' (1 / 1000000) \<and>
    dict_get micron_geometry ''V_th'' 0.7 < 3"
    by (simp add: dict_get_def silicon_def micron_geometry_def)
  have hs: "positivity_invariants silicon micron_geometry (1 / 1000000) (10 / 1000000) 1400 \<and>
    kelvin (Some 26.85) \<noteq> 0 \<and>
    temperature_dependent_vth (dict_get micron_geometry ''V_th'' 0.7) (kelvin (Some 26.85)) < 3"
    by (simp add: positivity_invariants_def dict_get_def silicon_def micron_geometry_def
        kelvin_def temperature_dependent_vth_def)
  note mono = drain_current_nondecreasing_in_drain_voltage
    [OF x xy, where V_gs = 3 and material = silicon and geometry = micron_geometry
       and L = "1 / 1000000" and W = "10 / 1000000" and ?mu_300.0 = 1400
       and temperature = "Some 26.85"]
  note basic = mono [THEN conjunct1, THEN mp, OF hb]
  note simple = mono [THEN conjunct2, THEN mp, OF hs]
  show ?thesis
    by (rule conjI [OF x conjI [OF xy conjI [OF hb conjI [OF hs conjI [OF basic simple]]]]])
qed

section \<open>Absence of arithmetic exceptions\<close>




end
